theory Spec2Isabelle
  imports
    Main
    "HOL-Library.Char_ord"
    "HOL-Library.List_Lexorder"
    "HOL-Library.Product_Lexorder"
begin

section \<open>Data model\<close>

text \<open>
  The TypeScript interfaces \<^verbatim>\<open>User\<close>, \<^verbatim>\<open>Patient\<close>, \<^verbatim>\<open>Doctor\<close>, \<^verbatim>\<open>TimeSlot\<close> and
  \<^verbatim>\<open>Appointment\<close> of the types module (in the sources it follows hooks/useAuth.ts). Field names carry a prefix (\<open>p_\<close>, \<open>d_\<close>, \<open>s_\<close>, \<open>a_\<close>) because the
  interfaces share names such as \<^verbatim>\<open>date\<close>, \<^verbatim>\<open>time\<close> and \<^verbatim>\<open>doctorId\<close>. An object that carries
  an \<^verbatim>\<open>id\<close> next to its data is the pair of the id and the data, which is also how a
  Firestore document (key and contents) is represented. Dates and times are the strings the
  source stores (\<^verbatim>\<open>'2024-06-01'\<close>, \<^verbatim>\<open>'09:00'\<close>); timestamps are natural numbers.
\<close>

type_synonym docId = string
type_synonym timestamp = nat

datatype role = patient | doctor

datatype status = pending | confirmed | declined | completed

record Patient =
  p_uid :: string
  p_email :: string
  p_name :: string
  p_age :: int
  p_gender :: string

record Doctor =
  d_uid :: string
  d_email :: string
  d_name :: string
  d_specialty :: string

text \<open>\<^verbatim>\<open>Patient | Doctor\<close>, discriminated by \<^verbatim>\<open>role\<close>.\<close>

datatype User = PatientUser Patient | DoctorUser Doctor

fun user_uid :: "User \<Rightarrow> string" where
  "user_uid (PatientUser p) = p_uid p"
| "user_uid (DoctorUser d) = d_uid d"

fun user_name :: "User \<Rightarrow> string" where
  "user_name (PatientUser p) = p_name p"
| "user_name (DoctorUser d) = d_name d"

fun user_role :: "User \<Rightarrow> role" where
  "user_role (PatientUser p) = patient"
| "user_role (DoctorUser d) = doctor"

text \<open>\<^verbatim>\<open>(user as any).age\<close>, \<^verbatim>\<open>.gender\<close>, \<^verbatim>\<open>.specialty\<close>: \<open>None\<close> is JavaScript's \<^verbatim>\<open>undefined\<close>.\<close>

fun user_age :: "User \<Rightarrow> int option" where
  "user_age (PatientUser p) = Some (p_age p)"
| "user_age (DoctorUser d) = None"

fun user_gender :: "User \<Rightarrow> string option" where
  "user_gender (PatientUser p) = Some (p_gender p)"
| "user_gender (DoctorUser d) = None"

fun user_specialty :: "User \<Rightarrow> string option" where
  "user_specialty (PatientUser p) = None"
| "user_specialty (DoctorUser d) = Some (d_specialty d)"

text \<open>\<^verbatim>\<open>Omit<TimeSlot, 'id'>\<close>, and the document \<^verbatim>\<open>createTimeSlot\<close> stores for it.\<close>

record TimeSlotData =
  s_date :: string
  s_time :: string
  s_doctorId :: string
  s_isBooked :: bool

record TimeSlotDoc = TimeSlotData +
  s_createdAt :: timestamp
  s_updatedAt :: "timestamp option"

text \<open>\<^verbatim>\<open>Omit<Appointment, 'id' | 'createdAt' | 'updatedAt'>\<close>, and the stored document.\<close>

record AppointmentData =
  a_doctorId :: string
  a_patientId :: string
  a_doctorName :: string
  a_patientName :: string
  a_patientAge :: "int option"
  a_patientGender :: "string option"
  a_specialty :: string
  a_date :: string
  a_time :: string
  a_status :: status

record AppointmentDoc = AppointmentData +
  a_createdAt :: timestamp
  a_updatedAt :: timestamp

record UserDoc =
  u_data :: User
  u_createdAt :: timestamp
  u_updatedAt :: timestamp

datatype ntype = success | error | info

text \<open>The arguments of \<^verbatim>\<open>showNotification(message, type)\<close>.\<close>

type_synonym notification = "string \<times> ntype"

section \<open>The Firestore client SDK\<close>

text \<open>
  The SDK is not part of the repository; the model keeps the part of its documented
  behaviour the source relies on. A collection is the list of its documents with their keys.
  \<^verbatim>\<open>addDoc\<close> stores a document under an id the SDK generates, unique in the collection (here:
  a key longer than every key present), and rejects data with an \<^verbatim>\<open>undefined\<close> field;
  \<^verbatim>\<open>setDoc\<close> creates or overwrites; \<^verbatim>\<open>updateDoc\<close> fails when the document does not exist;
  \<^verbatim>\<open>deleteDoc\<close> succeeds whether or not it exists. A query filters with its \<^verbatim>\<open>where\<close> clauses
  and orders by its \<^verbatim>\<open>orderBy\<close> fields, then by document id. Faults of the environment (no
  network, permission denied) are outside the model.
\<close>

type_synonym 'd collection = "(docId \<times> 'd) list"

datatype firestore_error = not_found | invalid_argument

definition getDoc :: "'d collection \<Rightarrow> docId \<Rightarrow> 'd option" where
  "getDoc c k = map_of c k"

definition autoId :: "'d collection \<Rightarrow> docId" where
  "autoId c = replicate (Suc (foldr (\<lambda>kd n. max (length (fst kd)) n) c 0)) (CHR ''0'')"

definition addDoc :: "('d \<Rightarrow> bool) \<Rightarrow> 'd collection \<Rightarrow> 'd \<Rightarrow> firestore_error + docId \<times> 'd collection" where
  "addDoc defined c d =
     (if defined d then Inr (autoId c, c @ [(autoId c, d)]) else Inl invalid_argument)"

definition setDoc :: "'d collection \<Rightarrow> docId \<Rightarrow> 'd \<Rightarrow> 'd collection" where
  "setDoc c k d =
     (if map_of c k = None then c @ [(k, d)]
      else map (\<lambda>(k', d'). if k' = k then (k', d) else (k', d')) c)"

definition updateDoc :: "'d collection \<Rightarrow> docId \<Rightarrow> ('d \<Rightarrow> 'd) \<Rightarrow> firestore_error + 'd collection" where
  "updateDoc c k f =
     (if map_of c k = None then Inl not_found
      else Inr (map (\<lambda>(k', d'). if k' = k then (k', f d') else (k', d')) c))"

definition deleteDoc :: "'d collection \<Rightarrow> docId \<Rightarrow> 'd collection" where
  "deleteDoc c k = filter (\<lambda>(k', d'). k' \<noteq> k) c"

definition getDocs :: "('d \<Rightarrow> bool) \<Rightarrow> (docId \<times> 'd \<Rightarrow> 'o::linorder) \<Rightarrow> 'd collection \<Rightarrow> (docId \<times> 'd) list" where
  "getDocs wh ordr c = sort_key ordr (filter (\<lambda>(k, d). wh d) c)"

record Firestore =
  users :: "UserDoc collection"
  timeSlots :: "TimeSlotDoc collection"
  appointments :: "AppointmentDoc collection"

section \<open>lib/firestore.ts\<close>

text \<open>
  The module the pages import as \<^verbatim>\<open>../lib/firestore\<close> (unnamed/part_004 in the sources).
  Each function of the source wraps its SDK calls in \<^verbatim>\<open>try\<close>/\<^verbatim>\<open>catch\<close>, logs and rethrows
  (or, for the readers, returns a default): an \<open>Inl\<close> of the SDK is an \<open>Inl\<close> of the function.
  \<^verbatim>\<open>serverTimestamp()\<close> is the time \<open>now\<close> at which the server commits the write, and
  \<^verbatim>\<open>new Date()\<close> the client's clock \<open>clientNow\<close>; both are arguments.
\<close>

definition createUserDocument :: "Firestore \<Rightarrow> User \<Rightarrow> timestamp \<Rightarrow> User \<times> Firestore" where
  "createUserDocument st userData now =
     (userData,
      st\<lparr>users := setDoc (users st) (user_uid userData)
            \<lparr>u_data = userData, u_createdAt = now, u_updatedAt = now\<rparr>\<rparr>)"

definition getUserDocument :: "Firestore \<Rightarrow> string \<Rightarrow> User option" where
  "getUserDocument st uid = map_option u_data (getDoc (users st) uid)"

definition createTimeSlot ::
  "Firestore \<Rightarrow> TimeSlotData \<Rightarrow> timestamp \<Rightarrow> firestore_error + (docId \<times> TimeSlotData) \<times> Firestore" where
  "createTimeSlot st timeSlotData now =
     (case addDoc (\<lambda>d. True) (timeSlots st)
             \<lparr>s_date = s_date timeSlotData, s_time = s_time timeSlotData,
              s_doctorId = s_doctorId timeSlotData, s_isBooked = s_isBooked timeSlotData,
              s_createdAt = now, s_updatedAt = None\<rparr> of
        Inl e \<Rightarrow> Inl e
      | Inr (k, c) \<Rightarrow> Inr ((k, timeSlotData), st\<lparr>timeSlots := c\<rparr>))"

text \<open>The \<^verbatim>\<open>orderBy('date'), orderBy('time')\<close> of the slot queries.\<close>

definition slotOrder :: "docId \<times> TimeSlotDoc \<Rightarrow> string \<times> string \<times> docId" where
  "slotOrder kd = (s_date (snd kd), s_time (snd kd), fst kd)"

definition getDoctorTimeSlots :: "Firestore \<Rightarrow> string \<Rightarrow> (docId \<times> TimeSlotDoc) list" where
  "getDoctorTimeSlots st doctorId =
     getDocs (\<lambda>d. s_doctorId d = doctorId \<and> s_isBooked d = False) slotOrder (timeSlots st)"

text \<open>JavaScript's \<^verbatim>\<open>x || dflt\<close> on an optional string: \<^verbatim>\<open>undefined\<close> and \<^verbatim>\<open>''\<close> are falsy.\<close>

definition orElse :: "string option \<Rightarrow> string \<Rightarrow> string" where
  "orElse x dflt = (case x of None \<Rightarrow> dflt | Some s \<Rightarrow> if s = [] then dflt else s)"

definition getAvailableTimeSlots :: "Firestore \<Rightarrow> ((docId \<times> TimeSlotDoc) \<times> string \<times> string) list" where
  "getAvailableTimeSlots st =
     map (\<lambda>slot.
            let doctor = getUserDocument st (s_doctorId (snd slot))
            in (slot,
                orElse (map_option user_name doctor) ''Unknown Doctor'',
                orElse (Option.bind doctor user_specialty) ''General''))
         (getDocs (\<lambda>d. s_isBooked d = False) slotOrder (timeSlots st))"

definition deleteTimeSlot :: "Firestore \<Rightarrow> docId \<Rightarrow> Firestore" where
  "deleteTimeSlot st slotId = st\<lparr>timeSlots := deleteDoc (timeSlots st) slotId\<rparr>"

definition updateTimeSlotBookingStatus ::
  "Firestore \<Rightarrow> docId \<Rightarrow> bool \<Rightarrow> timestamp \<Rightarrow> firestore_error + Firestore" where
  "updateTimeSlotBookingStatus st slotId isBooked now =
     (case updateDoc (timeSlots st) slotId
             (\<lambda>d. d\<lparr>s_isBooked := isBooked, s_updatedAt := Some now\<rparr>) of
        Inl e \<Rightarrow> Inl e
      | Inr c \<Rightarrow> Inr (st\<lparr>timeSlots := c\<rparr>))"

text \<open>The optional fields of the appointment data that may be \<^verbatim>\<open>undefined\<close>.\<close>

definition appointmentDefined :: "AppointmentDoc \<Rightarrow> bool" where
  "appointmentDefined d = (a_patientAge d \<noteq> None \<and> a_patientGender d \<noteq> None)"

definition createAppointment ::
  "Firestore \<Rightarrow> AppointmentData \<Rightarrow> timestamp \<Rightarrow> timestamp \<Rightarrow>
   firestore_error + (docId \<times> AppointmentDoc) \<times> Firestore" where
  "createAppointment st appointmentData now clientNow =
     (case addDoc appointmentDefined (appointments st)
             (AppointmentData.extend appointmentData
                (AppointmentDoc.fields now now)) of
        Inl e \<Rightarrow> Inl e
      | Inr (k, c) \<Rightarrow>
          Inr ((k, AppointmentData.extend appointmentData (AppointmentDoc.fields clientNow clientNow)),
               st\<lparr>appointments := c\<rparr>))"

definition updateAppointmentStatus ::
  "Firestore \<Rightarrow> docId \<Rightarrow> status \<Rightarrow> timestamp \<Rightarrow> firestore_error + Firestore" where
  "updateAppointmentStatus st appointmentId status now =
     (case updateDoc (appointments st) appointmentId
             (\<lambda>d. d\<lparr>a_status := status, a_updatedAt := now\<rparr>) of
        Inl e \<Rightarrow> Inl e
      | Inr c \<Rightarrow> Inr (st\<lparr>appointments := c\<rparr>))"

section \<open>The pages that call the store\<close>

text \<open>
  An event handler returns the notification it shows, if any, and the store it leaves.
  Navigation and the spinner flags (\<^verbatim>\<open>setBooking\<close>, \<^verbatim>\<open>setUpdating\<close>, ...) are not modelled.
\<close>

text \<open>
  \<^verbatim>\<open>bookAppointment\<close> of the BookAppointment page (in the sources it follows
  pages/Login.tsx). The selected doctor and slot are the
  objects loaded earlier into the page's state; \<open>now1\<close> and \<open>now2\<close> are the commit times of
  the two writes.
\<close>

definition bookAppointment ::
  "Firestore \<Rightarrow> Doctor option \<Rightarrow> (docId \<times> TimeSlotDoc) option \<Rightarrow> User option \<Rightarrow>
   timestamp \<Rightarrow> timestamp \<Rightarrow> timestamp \<Rightarrow> notification option \<times> Firestore" where
  "bookAppointment st selectedDoctor selectedTimeSlot user now1 now2 clientNow =
     (case (selectedDoctor, selectedTimeSlot, user) of
        (Some dr, Some slot, Some u) \<Rightarrow>
          (case createAppointment st
                  \<lparr>a_doctorId = d_uid dr,
                   a_patientId = user_uid u,
                   a_doctorName = d_name dr,
                   a_patientName = user_name u,
                   a_patientAge = (if user_role u = patient then user_age u else None),
                   a_patientGender = (if user_role u = patient then user_gender u else None),
                   a_specialty = d_specialty dr,
                   a_date = s_date (snd slot),
                   a_time = s_time (snd slot),
                   a_status = pending\<rparr> now1 clientNow of
             Inl e \<Rightarrow> (Some (''Failed to book appointment. Please try again.'', error), st)
           | Inr (appt, st1) \<Rightarrow>
               (case updateTimeSlotBookingStatus st1 (fst slot) True now2 of
                  Inl e \<Rightarrow> (Some (''Failed to book appointment. Please try again.'', error), st1)
                | Inr st2 \<Rightarrow> (Some (''Appointment booked successfully!'', success), st2)))
      | _ \<Rightarrow> (None, st))"

fun statusName :: "status \<Rightarrow> string" where
  "statusName pending = ''pending''"
| "statusName confirmed = ''confirmed''"
| "statusName declined = ''declined''"
| "statusName completed = ''completed''"

text \<open>\<^verbatim>\<open>handleUpdateAppointmentStatus\<close> of pages/DoctorDashboard.tsx.\<close>

definition handleUpdateAppointmentStatus ::
  "Firestore \<Rightarrow> docId \<Rightarrow> status \<Rightarrow> timestamp \<Rightarrow> notification \<times> Firestore" where
  "handleUpdateAppointmentStatus st appointmentId status now =
     (case updateAppointmentStatus st appointmentId status now of
        Inl e \<Rightarrow> ((''Failed to update appointment'', error), st)
      | Inr st' \<Rightarrow> ((''Appointment '' @ statusName status @ '' successfully'', success), st'))"

text \<open>
  The dashboard renders the Confirm and Decline buttons, which call the handler with
  \<^verbatim>\<open>'confirmed'\<close> and \<^verbatim>\<open>'declined'\<close>, only for an appointment it displays as pending.
\<close>

definition statusButtons :: "AppointmentDoc \<Rightarrow> status list" where
  "statusButtons appointment = (if a_status appointment = pending then [confirmed, declined] else [])"

text \<open>\<^verbatim>\<open>handleAddSlot\<close> and \<^verbatim>\<open>handleRemoveSlot\<close> of pages/ManageAvailability.tsx.\<close>

definition handleAddSlot ::
  "Firestore \<Rightarrow> string \<times> string \<Rightarrow> User option \<Rightarrow> timestamp \<Rightarrow> notification option \<times> Firestore" where
  "handleAddSlot st newSlot user now =
     (case user of
        None \<Rightarrow> (None, st)
      | Some u \<Rightarrow>
          if fst newSlot = [] \<or> snd newSlot = [] then (None, st)
          else
            (case createTimeSlot st
                    \<lparr>s_date = fst newSlot, s_time = snd newSlot,
                     s_doctorId = user_uid u, s_isBooked = False\<rparr> now of
               Inl e \<Rightarrow> (Some (''Failed to add slot'', error), st)
             | Inr (slot, st') \<Rightarrow> (Some (''Available slot added successfully'', success), st')))"

definition handleRemoveSlot :: "Firestore \<Rightarrow> docId \<Rightarrow> notification \<times> Firestore" where
  "handleRemoveSlot st slotId = ((''Slot removed successfully'', success), deleteTimeSlot st slotId)"

text \<open>The page renders the remove button of a listed slot only when the slot is not booked.\<close>

definition removeButtonShown :: "TimeSlotDoc \<Rightarrow> bool" where
  "removeButtonShown slot = (\<not> s_isBooked slot)"

section \<open>lib/tempStorage.ts\<close>

text \<open>
  The fallback tier keeps JSON arrays in the browser's \<^verbatim>\<open>localStorage\<close>. An item that is
  absent, empty or not parsable is \<open>None\<close>: \<^verbatim>\<open>getFromStorage\<close> reads it as the empty array.
  A write (\<^verbatim>\<open>setItem\<close>) is taken to succeed. The generated ids are
  \<^verbatim>\<open>slot_${Date.now()}_${random}\<close> and \<^verbatim>\<open>appt_${Date.now()}_${random}\<close>; the two variable parts
  are the arguments \<open>ts\<close> and \<open>rnd\<close>.
\<close>

record LocalStorage =
  ls_appointments :: "(docId \<times> AppointmentDoc) list option"
  ls_timeSlots :: "(docId \<times> TimeSlotData) list option"

definition getFromStorage :: "'a list option \<Rightarrow> 'a list" where
  "getFromStorage item = (case item of None \<Rightarrow> [] | Some xs \<Rightarrow> xs)"

definition saveToStorage :: "'a list \<Rightarrow> 'a list option" where
  "saveToStorage xs = Some xs"

definition tempCreateTimeSlot ::
  "LocalStorage \<Rightarrow> TimeSlotData \<Rightarrow> string \<Rightarrow> string \<Rightarrow> (docId \<times> TimeSlotData) \<times> LocalStorage" where
  "tempCreateTimeSlot ls timeSlot ts rnd =
     (let timeSlots = getFromStorage (ls_timeSlots ls);
          newTimeSlot = (''slot_'' @ ts @ ''_'' @ rnd, timeSlot)
      in (newTimeSlot, ls\<lparr>ls_timeSlots := saveToStorage (timeSlots @ [newTimeSlot])\<rparr>))"

text \<open>An optional \<^verbatim>\<open>doctorId\<close> that is \<^verbatim>\<open>undefined\<close> or empty is falsy: no filter.\<close>

definition tempGetTimeSlots :: "LocalStorage \<Rightarrow> string option \<Rightarrow> (docId \<times> TimeSlotData) list" where
  "tempGetTimeSlots ls doctorId =
     (let timeSlots = getFromStorage (ls_timeSlots ls)
      in case doctorId of
           None \<Rightarrow> timeSlots
         | Some dr \<Rightarrow>
             if dr = [] then timeSlots
             else filter (\<lambda>slot. s_doctorId (snd slot) = dr) timeSlots)"

definition tempGetAvailableSlots :: "LocalStorage \<Rightarrow> string option \<Rightarrow> (docId \<times> TimeSlotData) list" where
  "tempGetAvailableSlots ls doctorId =
     filter (\<lambda>slot. \<not> s_isBooked (snd slot)) (tempGetTimeSlots ls doctorId)"

definition tempDeleteTimeSlot :: "LocalStorage \<Rightarrow> docId \<Rightarrow> bool \<times> LocalStorage" where
  "tempDeleteTimeSlot ls i =
     (let timeSlots = getFromStorage (ls_timeSlots ls);
          filteredSlots = filter (\<lambda>slot. fst slot \<noteq> i) timeSlots
      in if length filteredSlots < length timeSlots
         then (True, ls\<lparr>ls_timeSlots := saveToStorage filteredSlots\<rparr>)
         else (False, ls))"

definition tempCreateAppointment ::
  "LocalStorage \<Rightarrow> AppointmentDoc \<Rightarrow> string \<Rightarrow> string \<Rightarrow> (docId \<times> AppointmentDoc) \<times> LocalStorage" where
  "tempCreateAppointment ls appointment ts rnd =
     (let appointments = getFromStorage (ls_appointments ls);
          newAppointment = (''appt_'' @ ts @ ''_'' @ rnd, appointment);
          ls1 = ls\<lparr>ls_appointments := saveToStorage (appointments @ [newAppointment])\<rparr>;
          timeSlots = getFromStorage (ls_timeSlots ls1);
          updatedSlots =
            map (\<lambda>slot.
                   if s_doctorId (snd slot) = a_doctorId appointment \<and>
                      s_date (snd slot) = a_date appointment \<and>
                      s_time (snd slot) = a_time appointment
                   then (fst slot, (snd slot)\<lparr>s_isBooked := True\<rparr>)
                   else slot)
                timeSlots
      in (newAppointment, ls1\<lparr>ls_timeSlots := saveToStorage updatedSlots\<rparr>))"

section \<open>Sequences of calls\<close>

text \<open>
  The mutating functions of lib/firestore.ts as a datatype of calls, to speak about
  everything that can happen to the store after a point in time. A call that throws
  leaves the store as it is.
\<close>

datatype operation =
    CreateUserDocument User timestamp
  | CreateTimeSlot TimeSlotData timestamp
  | DeleteTimeSlot docId
  | UpdateTimeSlotBookingStatus docId bool timestamp
  | CreateAppointment AppointmentData timestamp timestamp
  | UpdateAppointmentStatus docId status timestamp

fun perform :: "Firestore \<Rightarrow> operation \<Rightarrow> Firestore" where
  "perform st (CreateUserDocument u now) = snd (createUserDocument st u now)"
| "perform st (CreateTimeSlot d now) =
     (case createTimeSlot st d now of Inl e \<Rightarrow> st | Inr (slot, st') \<Rightarrow> st')"
| "perform st (DeleteTimeSlot k) = deleteTimeSlot st k"
| "perform st (UpdateTimeSlotBookingStatus k b now) =
     (case updateTimeSlotBookingStatus st k b now of Inl e \<Rightarrow> st | Inr st' \<Rightarrow> st')"
| "perform st (CreateAppointment d now clientNow) =
     (case createAppointment st d now clientNow of Inl e \<Rightarrow> st | Inr (appt, st') \<Rightarrow> st')"
| "perform st (UpdateAppointmentStatus k s now) =
     (case updateAppointmentStatus st k s now of Inl e \<Rightarrow> st | Inr st' \<Rightarrow> st')"

section \<open>Example data\<close>

definition exDoctor :: Doctor where
  "exDoctor = \<lparr>d_uid = ''D1'', d_email = ''sarah.johnson@doccare.com'',
               d_name = ''Dr. Sarah Johnson'', d_specialty = ''cardiology''\<rparr>"

definition exPatient1 :: Patient where
  "exPatient1 = \<lparr>p_uid = ''P1'', p_email = ''john.smith@example.com'', p_name = ''John Smith'',
                 p_age = 35, p_gender = ''male''\<rparr>"

definition exPatient2 :: Patient where
  "exPatient2 = \<lparr>p_uid = ''P2'', p_email = ''maria.garcia@example.com'', p_name = ''Maria Garcia'',
                 p_age = 28, p_gender = ''female''\<rparr>"

definition exSlot :: TimeSlotDoc where
  "exSlot = \<lparr>s_date = ''2024-06-01'', s_time = ''09:00'', s_doctorId = ''D1'',
             s_isBooked = False, s_createdAt = 1, s_updatedAt = None\<rparr>"

text \<open>Doctor D1 is registered and has published the open slot \<open>s1\<close>.\<close>

definition exStore :: Firestore where
  "exStore = \<lparr>users = [(''D1'', \<lparr>u_data = DoctorUser exDoctor, u_createdAt = 0, u_updatedAt = 0\<rparr>)],
              timeSlots = [(''s1'', exSlot)],
              appointments = []\<rparr>"

text \<open>Patient P1 has booked \<open>s1\<close>; the page of patient P2 still shows the slot as loaded before.\<close>

definition exBooked1 :: Firestore where
  "exBooked1 =
     snd (bookAppointment exStore (Some exDoctor) (Some (''s1'', exSlot))
            (Some (PatientUser exPatient1)) 2 3 2)"

text \<open>The doctor has withdrawn \<open>s1\<close> while a patient's page still shows it.\<close>

definition exWithdrawn :: Firestore where
  "exWithdrawn = deleteTimeSlot exStore ''s1''"

text \<open>The appointment document the booking of \<open>s1\<close> by P1 stores.\<close>

definition exAppointment1 :: AppointmentDoc where
  "exAppointment1 =
     \<lparr>a_doctorId = ''D1'', a_patientId = ''P1'', a_doctorName = ''Dr. Sarah Johnson'',
      a_patientName = ''John Smith'', a_patientAge = Some 35, a_patientGender = Some ''male'',
      a_specialty = ''cardiology'', a_date = ''2024-06-01'', a_time = ''09:00'',
      a_status = pending, a_createdAt = 2, a_updatedAt = 2\<rparr>"

text \<open>
  The doctor has declined P1's appointment on one dashboard; a second dashboard, opened
  before, still displays the appointment as pending (\<open>exAppointment1\<close>).
\<close>

definition exDeclined :: Firestore where
  "exDeclined = snd (handleUpdateAppointmentStatus exBooked1 ''0'' declined 6)"

text \<open>The data of P1's appointment as handed to \<^verbatim>\<open>createAppointment\<close>.\<close>

definition exAppointmentData :: AppointmentData where
  "exAppointmentData =
     \<lparr>a_doctorId = ''D1'', a_patientId = ''P1'', a_doctorName = ''Dr. Sarah Johnson'',
      a_patientName = ''John Smith'', a_patientAge = Some 35, a_patientGender = Some ''male'',
      a_specialty = ''cardiology'', a_date = ''2024-06-01'', a_time = ''09:00'',
      a_status = pending\<rparr>"

text \<open>
  Later calls: the doctor's profile is rewritten with another specialty, the slot is marked
  booked, the appointment is confirmed.
\<close>

definition exLaterCalls :: "operation list" where
  "exLaterCalls =
     [CreateUserDocument (DoctorUser (exDoctor\<lparr>d_specialty := ''dermatology''\<rparr>)) 5,
      UpdateTimeSlotBookingStatus ''s1'' True 6,
      UpdateAppointmentStatus ''0'' confirmed 7]"

text \<open>
  Local storage after two \<^verbatim>\<open>tempCreateTimeSlot\<close> calls, the slot of the later date
  published first.
\<close>

definition exUnordered :: LocalStorage where
  "exUnordered =
     snd (tempCreateTimeSlot
            (snd (tempCreateTimeSlot \<lparr>ls_appointments = None, ls_timeSlots = None\<rparr>
                    \<lparr>s_date = ''2024-06-02'', s_time = ''09:00'', s_doctorId = ''doctor_1'',
                     s_isBooked = False\<rparr> ''1'' ''a''))
            \<lparr>s_date = ''2024-06-01'', s_time = ''09:00'', s_doctorId = ''doctor_1'',
             s_isBooked = False\<rparr> ''2'' ''b'')"

text \<open>
  Local storage with three open slots of one doctor; the first and the third share date and
  time.
\<close>

definition exLocal :: LocalStorage where
  "exLocal =
     \<lparr>ls_appointments = None,
      ls_timeSlots = Some
        [(''slot_1_a'', \<lparr>s_date = ''2024-06-01'', s_time = ''09:00'', s_doctorId = ''doctor_1'',
                        s_isBooked = False\<rparr>),
         (''slot_2_b'', \<lparr>s_date = ''2024-06-01'', s_time = ''09:30'', s_doctorId = ''doctor_1'',
                        s_isBooked = False\<rparr>),
         (''slot_3_c'', \<lparr>s_date = ''2024-06-01'', s_time = ''09:00'', s_doctorId = ''doctor_1'',
                        s_isBooked = False\<rparr>)]\<rparr>"

definition exLocalAppointment :: AppointmentDoc where
  "exLocalAppointment =
     \<lparr>a_doctorId = ''doctor_1'', a_patientId = ''patient_1'', a_doctorName = ''Dr. Sarah Johnson'',
      a_patientName = ''John Smith'', a_patientAge = Some 35, a_patientGender = Some ''male'',
      a_specialty = ''cardiology'', a_date = ''2024-06-01'', a_time = ''09:00'',
      a_status = pending, a_createdAt = 2, a_updatedAt = 2\<rparr>"

text \<open>
  An appointment document with \<^verbatim>\<open>status\<close> and \<^verbatim>\<open>updatedAt\<close> blanked: two documents with the
  same \<open>snapshot\<close> agree on every other field.
\<close>

definition snapshot :: "AppointmentDoc \<Rightarrow> AppointmentDoc" where
  "snapshot a = a\<lparr>a_status := pending, a_updatedAt := 0\<rparr>"

section \<open>Facts about the store primitives\<close>

lemma key_length_bound:
  "(k, d) \<in> set c \<Longrightarrow> length k \<le> foldr (\<lambda>kd n. max (length (fst kd)) n) c 0"
  by (induction c) auto

lemma autoId_fresh: "map_of c (autoId c) = None"
proof (rule ccontr)
  assume "map_of c (autoId c) \<noteq> None"
  then obtain d where "(autoId c, d) \<in> set c"
    by (auto dest: map_of_SomeD)
  then have "length (autoId c) \<le> foldr (\<lambda>kd n. max (length (fst kd)) n) c 0"
    by (rule key_length_bound)
  then show False
    by (simp add: autoId_def)
qed

lemma map_of_modify:
  "map_of (map (\<lambda>(k', d'). if k' = k then (k', f d') else (k', d')) c) x =
     (if x = k then map_option f (map_of c x) else map_of c x)"
  by (induction c) auto

lemma map_of_snoc:
  "map_of (c @ [(k, d)]) x =
     (case map_of c x of None \<Rightarrow> if x = k then Some d else None | Some y \<Rightarrow> Some y)"
  by (induction c) auto

lemma map_of_remove:
  "map_of (filter (\<lambda>(k', d'). k' \<noteq> k) c) x = (if x = k then None else map_of c x)"
  by (induction c) auto

lemma filter_keeps_all: "\<not> length (filter P xs) < length xs \<Longrightarrow> filter P xs = xs"
  by (metis filter_id_conv length_filter_less)

section \<open>Booking\<close>

text \<open>
  What \<^verbatim>\<open>bookAppointment\<close> does for a logged-in patient: the appointment is written first,
  from the objects held by the page; the slot document is touched second, by an update that
  does not read the flag it sets.
\<close>

lemma bookAppointment_patient:
  "bookAppointment st (Some dr) (Some slot) (Some (PatientUser p)) now1 now2 clientNow =
     (let appts = appointments st @
            [(autoId (appointments st),
              \<lparr>a_doctorId = d_uid dr, a_patientId = p_uid p, a_doctorName = d_name dr,
               a_patientName = p_name p, a_patientAge = Some (p_age p),
               a_patientGender = Some (p_gender p), a_specialty = d_specialty dr,
               a_date = s_date (snd slot), a_time = s_time (snd slot), a_status = pending,
               a_createdAt = now1, a_updatedAt = now1\<rparr>)]
      in if getDoc (timeSlots st) (fst slot) = None
         then (Some (''Failed to book appointment. Please try again.'', error),
               st\<lparr>appointments := appts\<rparr>)
         else (Some (''Appointment booked successfully!'', success),
               st\<lparr>appointments := appts,
                  timeSlots := map (\<lambda>(k', d'). if k' = fst slot
                                     then (k', d'\<lparr>s_isBooked := True, s_updatedAt := Some now2\<rparr>)
                                     else (k', d')) (timeSlots st)\<rparr>))"
  by (simp add: bookAppointment_def createAppointment_def addDoc_def appointmentDefined_def
        updateTimeSlotBookingStatus_def updateDoc_def getDoc_def
        AppointmentData.defs AppointmentDoc.defs Let_def)

lemma bookAppointment_doctor:
  "bookAppointment st (Some dr) (Some slot) (Some (DoctorUser d)) now1 now2 clientNow =
     (Some (''Failed to book appointment. Please try again.'', error), st)"
  by (simp add: bookAppointment_def createAppointment_def addDoc_def appointmentDefined_def
        AppointmentData.defs AppointmentDoc.defs)

lemma exBooked1_eq:
  "exBooked1 =
     \<lparr>users = [(''D1'', \<lparr>u_data = DoctorUser exDoctor, u_createdAt = 0, u_updatedAt = 0\<rparr>)],
      timeSlots = [(''s1'', exSlot\<lparr>s_isBooked := True, s_updatedAt := Some 3\<rparr>)],
      appointments = [(''0'', exAppointment1)]\<rparr>"
  by (simp add: exBooked1_def bookAppointment_patient exStore_def exDoctor_def exPatient1_def
        exSlot_def exAppointment1_def getDoc_def autoId_def Let_def)

text \<open>
  C1, as stated, fails already when the two calls run one after the other: patient P1 books
  slot \<open>s1\<close>, then patient P2 books the same slot from a page loaded earlier, and both calls
  report success; the store holds one appointment for each of them.
\<close>

theorem double_booking_counterexample:
  "fst (bookAppointment exStore (Some exDoctor) (Some (''s1'', exSlot))
          (Some (PatientUser exPatient1)) 2 3 2) =
     Some (''Appointment booked successfully!'', success) \<and>
   fst (bookAppointment exBooked1 (Some exDoctor) (Some (''s1'', exSlot))
          (Some (PatientUser exPatient2)) 4 5 4) =
     Some (''Appointment booked successfully!'', success) \<and>
   map (\<lambda>a. a_patientId (snd a))
     (appointments (snd (bookAppointment exBooked1 (Some exDoctor) (Some (''s1'', exSlot))
          (Some (PatientUser exPatient2)) 4 5 4))) = [''P1'', ''P2'']"
  by (simp add: bookAppointment_patient exBooked1_eq exStore_def exSlot_def exPatient1_def
        exPatient2_def exDoctor_def exAppointment1_def getDoc_def Let_def)

text \<open>
  C1 (amended): \<^verbatim>\<open>bookAppointment\<close> has no conflict check and no conditional write. For
  every store in which the selected slot document exists, two calls for that slot by two
  patients, one after the other, both report success: each appends its own pending
  appointment, and the slot's flag is set by an unconditional update and ends true.
\<close>

theorem two_bookings_of_one_slot_both_succeed:
  assumes "getDoc (timeSlots st) (fst slot) \<noteq> None"
  shows "\<exists>st1 st2 a1 a2 d.
           bookAppointment st (Some dr) (Some slot) (Some (PatientUser p1)) t1 t2 c1 =
             (Some (''Appointment booked successfully!'', success), st1) \<and>
           bookAppointment st1 (Some dr) (Some slot) (Some (PatientUser p2)) t3 t4 c2 =
             (Some (''Appointment booked successfully!'', success), st2) \<and>
           appointments st2 = appointments st @ [a1, a2] \<and>
           a_patientId (snd a1) = p_uid p1 \<and> a_patientId (snd a2) = p_uid p2 \<and>
           a_status (snd a1) = pending \<and> a_status (snd a2) = pending \<and>
           getDoc (timeSlots st2) (fst slot) = Some d \<and> s_isBooked d"
  using assms
  by (auto simp: bookAppointment_patient Let_def getDoc_def map_of_modify simp del: map_map)

text \<open>Witness for C1 (amended): the store with the open slot \<open>s1\<close>, patients P1 and P2.\<close>

theorem two_bookings_of_one_slot_both_succeed_witness:
  "getDoc (timeSlots exStore) (fst (''s1'', exSlot)) \<noteq> None \<and>
   (\<exists>st1 st2 a1 a2 d.
      bookAppointment exStore (Some exDoctor) (Some (''s1'', exSlot)) (Some (PatientUser exPatient1)) 2 3 2 =
        (Some (''Appointment booked successfully!'', success), st1) \<and>
      bookAppointment st1 (Some exDoctor) (Some (''s1'', exSlot)) (Some (PatientUser exPatient2)) 4 5 4 =
        (Some (''Appointment booked successfully!'', success), st2) \<and>
      appointments st2 = appointments exStore @ [a1, a2] \<and>
      a_patientId (snd a1) = p_uid exPatient1 \<and> a_patientId (snd a2) = p_uid exPatient2 \<and>
      a_status (snd a1) = pending \<and> a_status (snd a2) = pending \<and>
      getDoc (timeSlots st2) (fst (''s1'', exSlot)) = Some d \<and> s_isBooked d)"
proof -
  have h: "getDoc (timeSlots exStore) (fst (''s1'', exSlot)) \<noteq> None"
    by (simp add: exStore_def getDoc_def)
  from h two_bookings_of_one_slot_both_succeed [OF h, of exDoctor exPatient1 2 3 2 exPatient2 4 5 4]
  show ?thesis by blast
qed

text \<open>
  C2, as stated, fails: the doctor has withdrawn slot \<open>s1\<close> while the patient's page still
  shows it. The call reports failure, yet the pending appointment written by its first step
  stays in the store and nothing compensates for it.
\<close>

theorem failed_booking_leaves_appointment_counterexample:
  "fst (bookAppointment exWithdrawn (Some exDoctor) (Some (''s1'', exSlot))
          (Some (PatientUser exPatient1)) 2 3 2) =
     Some (''Failed to book appointment. Please try again.'', error) \<and>
   appointments exWithdrawn = [] \<and>
   map (\<lambda>a. (a_patientId (snd a), a_status (snd a)))
     (appointments (snd (bookAppointment exWithdrawn (Some exDoctor) (Some (''s1'', exSlot))
          (Some (PatientUser exPatient1)) 2 3 2))) = [(''P1'', pending)] \<and>
   timeSlots (snd (bookAppointment exWithdrawn (Some exDoctor) (Some (''s1'', exSlot))
          (Some (PatientUser exPatient1)) 2 3 2)) = []"
  by (simp add: bookAppointment_patient exWithdrawn_def deleteTimeSlot_def deleteDoc_def
        exStore_def exSlot_def exPatient1_def exDoctor_def getDoc_def Let_def)

text \<open>
  C2 (amended): \<^verbatim>\<open>bookAppointment\<close> writes the appointment first and the slot flag second,
  and has no compensating action. For a patient: when the selected slot document exists,
  the call reports success with both writes applied (one pending appointment appended, the
  slot booked); when it does not exist, the call reports failure, the time slots are
  unchanged and the appointment appended by the first step remains. When the first write is
  rejected (a user without patient fields), the call reports failure and the store is
  unchanged.
\<close>

theorem bookAppointment_order_and_no_rollback:
  "(getDoc (timeSlots st) (fst slot) \<noteq> None \<longrightarrow>
      (\<exists>st' a d.
         bookAppointment st (Some dr) (Some slot) (Some (PatientUser p)) t1 t2 c =
           (Some (''Appointment booked successfully!'', success), st') \<and>
         appointments st' = appointments st @ [a] \<and> a_status (snd a) = pending \<and>
         getDoc (timeSlots st') (fst slot) = Some d \<and> s_isBooked d)) \<and>
   (getDoc (timeSlots st) (fst slot) = None \<longrightarrow>
      (\<exists>a.
         bookAppointment st (Some dr) (Some slot) (Some (PatientUser p)) t1 t2 c =
           (Some (''Failed to book appointment. Please try again.'', error),
            st\<lparr>appointments := appointments st @ [a]\<rparr>) \<and>
         a_status (snd a) = pending \<and> a_patientId (snd a) = p_uid p)) \<and>
   bookAppointment st (Some dr) (Some slot) (Some (DoctorUser u)) t1 t2 c =
     (Some (''Failed to book appointment. Please try again.'', error), st)"
proof (intro conjI impI)
  assume "getDoc (timeSlots st) (fst slot) \<noteq> None"
  then show "\<exists>st' a d.
         bookAppointment st (Some dr) (Some slot) (Some (PatientUser p)) t1 t2 c =
           (Some (''Appointment booked successfully!'', success), st') \<and>
         appointments st' = appointments st @ [a] \<and> a_status (snd a) = pending \<and>
         getDoc (timeSlots st') (fst slot) = Some d \<and> s_isBooked d"
    by (auto simp: bookAppointment_patient Let_def getDoc_def map_of_modify)
next
  assume "getDoc (timeSlots st) (fst slot) = None"
  then have "bookAppointment st (Some dr) (Some slot) (Some (PatientUser p)) t1 t2 c =
      (Some (''Failed to book appointment. Please try again.'', error),
       st\<lparr>appointments := appointments st @
          [last (appointments (snd (bookAppointment st (Some dr) (Some slot)
                   (Some (PatientUser p)) t1 t2 c)))]\<rparr>) \<and>
    a_status (snd (last (appointments (snd (bookAppointment st (Some dr) (Some slot)
                   (Some (PatientUser p)) t1 t2 c))))) = pending \<and>
    a_patientId (snd (last (appointments (snd (bookAppointment st (Some dr) (Some slot)
                   (Some (PatientUser p)) t1 t2 c))))) = p_uid p"
    by (simp add: bookAppointment_patient Let_def)
  then show "\<exists>a.
         bookAppointment st (Some dr) (Some slot) (Some (PatientUser p)) t1 t2 c =
           (Some (''Failed to book appointment. Please try again.'', error),
            st\<lparr>appointments := appointments st @ [a]\<rparr>) \<and>
         a_status (snd a) = pending \<and> a_patientId (snd a) = p_uid p"
    by (rule exI)
next
  show "bookAppointment st (Some dr) (Some slot) (Some (DoctorUser u)) t1 t2 c =
     (Some (''Failed to book appointment. Please try again.'', error), st)"
    by (rule bookAppointment_doctor)
qed

text \<open>
  Witness for C2 (amended): the slot exists in \<open>exStore\<close> and is missing in \<open>exWithdrawn\<close>.
\<close>

theorem bookAppointment_order_and_no_rollback_witness:
  "getDoc (timeSlots exStore) (fst (''s1'', exSlot)) \<noteq> None \<and>
   (\<exists>st' a d.
      bookAppointment exStore (Some exDoctor) (Some (''s1'', exSlot)) (Some (PatientUser exPatient1)) 2 3 2 =
        (Some (''Appointment booked successfully!'', success), st') \<and>
      appointments st' = appointments exStore @ [a] \<and> a_status (snd a) = pending \<and>
      getDoc (timeSlots st') (fst (''s1'', exSlot)) = Some d \<and> s_isBooked d) \<and>
   getDoc (timeSlots exWithdrawn) (fst (''s1'', exSlot)) = None \<and>
   (\<exists>a.
      bookAppointment exWithdrawn (Some exDoctor) (Some (''s1'', exSlot)) (Some (PatientUser exPatient1)) 2 3 2 =
        (Some (''Failed to book appointment. Please try again.'', error),
         exWithdrawn\<lparr>appointments := appointments exWithdrawn @ [a]\<rparr>) \<and>
      a_status (snd a) = pending \<and> a_patientId (snd a) = p_uid exPatient1)"
proof -
  have h1: "getDoc (timeSlots exStore) (fst (''s1'', exSlot)) \<noteq> None"
    by (simp add: exStore_def getDoc_def)
  have h2: "getDoc (timeSlots exWithdrawn) (fst (''s1'', exSlot)) = None"
    by (simp add: exWithdrawn_def deleteTimeSlot_def deleteDoc_def exStore_def getDoc_def)
  from h1 h2
    bookAppointment_order_and_no_rollback
      [of exStore "(''s1'', exSlot)" exDoctor exPatient1 2 3 2 exDoctor]
    bookAppointment_order_and_no_rollback
      [of exWithdrawn "(''s1'', exSlot)" exDoctor exPatient1 2 3 2 exDoctor]
  show ?thesis by blast
qed

text \<open>
  C3, as stated, fails: in \<open>exBooked1\<close> the slot document \<open>s1\<close> exists with its flag true. The
  call for it by P2 does not fail with a slot-booked error: it reports success, stores a
  second appointment for the slot's date and time, and the flag is true as before.
\<close>

theorem booking_a_booked_slot_counterexample:
  "map_option s_isBooked (getDoc (timeSlots exBooked1) ''s1'') = Some True \<and>
   fst (bookAppointment exBooked1 (Some exDoctor) (Some (''s1'', exSlot))
          (Some (PatientUser exPatient2)) 4 5 4) =
     Some (''Appointment booked successfully!'', success) \<and>
   map (\<lambda>a. (a_patientId (snd a), a_date (snd a), a_time (snd a), a_status (snd a)))
     (appointments (snd (bookAppointment exBooked1 (Some exDoctor) (Some (''s1'', exSlot))
          (Some (PatientUser exPatient2)) 4 5 4))) =
     [(''P1'', ''2024-06-01'', ''09:00'', pending), (''P2'', ''2024-06-01'', ''09:00'', pending)] \<and>
   map_option s_isBooked
     (getDoc (timeSlots (snd (bookAppointment exBooked1 (Some exDoctor) (Some (''s1'', exSlot))
          (Some (PatientUser exPatient2)) 4 5 4))) ''s1'') = Some True"
  by (simp add: bookAppointment_patient exBooked1_eq exSlot_def exPatient2_def exDoctor_def
        exAppointment1_def getDoc_def Let_def)

text \<open>
  C3 (amended): \<^verbatim>\<open>bookAppointment\<close> looks nothing up and checks no flag. For every store,
  doctor, slot object and patient, whether or not the slot exists or is booked, it appends
  one pending appointment that snapshots the doctor's id, name and specialty, the patient's
  id, name, age and gender, and the slot object's date and time. It then reports success
  exactly when a slot document with the selected id exists.
\<close>

theorem bookAppointment_unchecked_snapshot:
  "\<exists>r st'.
     bookAppointment st (Some dr) (Some slot) (Some (PatientUser p)) t1 t2 c = (r, st') \<and>
     appointments st' = appointments st @
       [(autoId (appointments st),
         \<lparr>a_doctorId = d_uid dr, a_patientId = p_uid p, a_doctorName = d_name dr,
          a_patientName = p_name p, a_patientAge = Some (p_age p),
          a_patientGender = Some (p_gender p), a_specialty = d_specialty dr,
          a_date = s_date (snd slot), a_time = s_time (snd slot), a_status = pending,
          a_createdAt = t1, a_updatedAt = t1\<rparr>)] \<and>
     getDoc (appointments st) (autoId (appointments st)) = None \<and>
     (r = Some (''Appointment booked successfully!'', success)) =
       (getDoc (timeSlots st) (fst slot) \<noteq> None) \<and>
     (r = Some (''Failed to book appointment. Please try again.'', error)) =
       (getDoc (timeSlots st) (fst slot) = None)"
  by (simp add: bookAppointment_patient Let_def getDoc_def autoId_fresh)

text \<open>Instance of C3 (amended): patient P2 and the booked slot of \<open>exBooked1\<close>.\<close>

theorem bookAppointment_unchecked_snapshot_witness:
  "\<exists>r st'.
     bookAppointment exBooked1 (Some exDoctor) (Some (''s1'', exSlot)) (Some (PatientUser exPatient2)) 4 5 4 =
       (r, st') \<and>
     appointments st' = appointments exBooked1 @
       [(autoId (appointments exBooked1),
         \<lparr>a_doctorId = d_uid exDoctor, a_patientId = p_uid exPatient2, a_doctorName = d_name exDoctor,
          a_patientName = p_name exPatient2, a_patientAge = Some (p_age exPatient2),
          a_patientGender = Some (p_gender exPatient2), a_specialty = d_specialty exDoctor,
          a_date = s_date (snd (''s1'', exSlot)), a_time = s_time (snd (''s1'', exSlot)),
          a_status = pending, a_createdAt = 4, a_updatedAt = 4\<rparr>)] \<and>
     getDoc (appointments exBooked1) (autoId (appointments exBooked1)) = None \<and>
     (r = Some (''Appointment booked successfully!'', success)) =
       (getDoc (timeSlots exBooked1) (fst (''s1'', exSlot)) \<noteq> None) \<and>
     (r = Some (''Failed to book appointment. Please try again.'', error)) =
       (getDoc (timeSlots exBooked1) (fst (''s1'', exSlot)) = None)"
  by (rule bookAppointment_unchecked_snapshot)

section \<open>Status updates\<close>

lemma statusButtons_only_for_pending:
  "s \<in> set (statusButtons a) \<Longrightarrow> a_status a = pending \<and> (s = confirmed \<or> s = declined)"
  by (auto simp: statusButtons_def split: if_splits)

lemma updateAppointmentStatus_frame:
  "updateAppointmentStatus st k new now = Inr st' \<Longrightarrow>
   timeSlots st' = timeSlots st \<and> users st' = users st"
  by (auto simp: updateAppointmentStatus_def split: sum.splits)

lemma exDeclined_eq:
  "exDeclined =
     exBooked1\<lparr>appointments := [(''0'', exAppointment1\<lparr>a_status := declined, a_updatedAt := 6\<rparr>)]\<rparr>"
  by (simp add: exDeclined_def handleUpdateAppointmentStatus_def updateAppointmentStatus_def
        updateDoc_def exBooked1_eq)

text \<open>
  C4, as stated, fails: P1's appointment has been declined, which the claim makes final. A
  dashboard that still displays it as pending offers the Confirm button; the update does not
  fail, the handler reports success, and the stored status goes from declined to confirmed.
\<close>

theorem declined_then_confirmed_counterexample:
  "map_option a_status (getDoc (appointments exDeclined) ''0'') = Some declined \<and>
   confirmed \<in> set (statusButtons exAppointment1) \<and>
   \<not> isl (updateAppointmentStatus exDeclined ''0'' confirmed 7) \<and>
   fst (handleUpdateAppointmentStatus exDeclined ''0'' confirmed 7) =
     (''Appointment confirmed successfully'', success) \<and>
   map_option a_status
     (getDoc (appointments (snd (handleUpdateAppointmentStatus exDeclined ''0'' confirmed 7))) ''0'') =
     Some confirmed"
  by (simp add: handleUpdateAppointmentStatus_def updateAppointmentStatus_def updateDoc_def
        exDeclined_eq exBooked1_eq exAppointment1_def statusButtons_def getDoc_def)

text \<open>
  C4 (amended): \<^verbatim>\<open>updateAppointmentStatus\<close> checks no transition. For every existing
  appointment, whatever its current status, and every requested status, the call succeeds,
  stores the requested status and the update time in that appointment, leaves every other
  appointment as it was, and the dashboard handler reports success. So the three
  transitions of the claim are performed, and so is any other, backward ones included.
\<close>

theorem updateAppointmentStatus_any_transition:
  assumes "getDoc (appointments st) k = Some a"
  shows "\<exists>st'. updateAppointmentStatus st k new now = Inr st' \<and>
           getDoc (appointments st') k = Some (a\<lparr>a_status := new, a_updatedAt := now\<rparr>) \<and>
           (\<forall>k'. k' \<noteq> k \<longrightarrow> getDoc (appointments st') k' = getDoc (appointments st) k') \<and>
           handleUpdateAppointmentStatus st k new now =
             ((''Appointment '' @ statusName new @ '' successfully'', success), st')"
  using assms
  by (simp add: updateAppointmentStatus_def handleUpdateAppointmentStatus_def updateDoc_def
        getDoc_def map_of_modify)

text \<open>
  Witness for C4 (amended): the pending appointment \<open>0\<close> of \<open>exBooked1\<close> is confirmed; the
  key \<open>a1\<close> stands for the other appointments.
\<close>

theorem updateAppointmentStatus_any_transition_witness:
  "getDoc (appointments exBooked1) ''0'' = Some exAppointment1 \<and>
   (\<exists>st'. updateAppointmentStatus exBooked1 ''0'' confirmed 6 = Inr st' \<and>
      getDoc (appointments st') ''0'' = Some (exAppointment1\<lparr>a_status := confirmed, a_updatedAt := 6\<rparr>) \<and>
      getDoc (appointments st') ''a1'' = getDoc (appointments exBooked1) ''a1'' \<and>
      handleUpdateAppointmentStatus exBooked1 ''0'' confirmed 6 =
        ((''Appointment '' @ statusName confirmed @ '' successfully'', success), st'))"
proof -
  have h: "getDoc (appointments exBooked1) ''0'' = Some exAppointment1"
    by (simp add: exBooked1_eq getDoc_def)
  have n: "''a1'' \<noteq> ''0''"
    by simp
  from h n updateAppointmentStatus_any_transition [OF h, of confirmed 6]
  show ?thesis by blast
qed

text \<open>
  C5, as stated, fails: P1's appointment for the booked slot \<open>s1\<close> is declined. The slot keeps
  its booked flag and appears in neither listing of open slots.
\<close>

theorem declined_slot_stays_booked_counterexample:
  "fst (handleUpdateAppointmentStatus exBooked1 ''0'' declined 6) =
     (''Appointment declined successfully'', success) \<and>
   map_option a_status
     (getDoc (appointments (snd (handleUpdateAppointmentStatus exBooked1 ''0'' declined 6))) ''0'') =
     Some declined \<and>
   map_option s_isBooked
     (getDoc (timeSlots (snd (handleUpdateAppointmentStatus exBooked1 ''0'' declined 6))) ''s1'') =
     Some True \<and>
   getAvailableTimeSlots (snd (handleUpdateAppointmentStatus exBooked1 ''0'' declined 6)) = [] \<and>
   getDoctorTimeSlots (snd (handleUpdateAppointmentStatus exBooked1 ''0'' declined 6)) ''D1'' = []"
  by (simp add: handleUpdateAppointmentStatus_def updateAppointmentStatus_def updateDoc_def
        exBooked1_eq exSlot_def getDoc_def getAvailableTimeSlots_def getDoctorTimeSlots_def
        getDocs_def)

text \<open>
  C5 (amended): a status update never touches a time slot. For every store, appointment id
  and new status (declined as well as confirmed or completed), the time slots after the
  dashboard's update are the time slots before it, and so are both listings of open slots:
  a slot that was booked stays booked, and no slot reappears.
\<close>

theorem status_update_never_releases_slot:
  "timeSlots (snd (handleUpdateAppointmentStatus st k new now)) = timeSlots st \<and>
   getAvailableTimeSlots (snd (handleUpdateAppointmentStatus st k new now)) = getAvailableTimeSlots st \<and>
   getDoctorTimeSlots (snd (handleUpdateAppointmentStatus st k new now)) dr = getDoctorTimeSlots st dr"
  by (auto simp: handleUpdateAppointmentStatus_def getAvailableTimeSlots_def getDoctorTimeSlots_def
        getUserDocument_def dest: updateAppointmentStatus_frame split: sum.splits)

section \<open>Publishing and withdrawing slots\<close>

text \<open>
  C6, as stated, fails: doctor D1 already has the open slot of 2024-06-01 at 09:00 and adds
  it again. Nothing fails with a duplicate error; the handler reports success and the
  doctor's listing holds two open slots with that date and time.
\<close>

theorem duplicate_slot_counterexample:
  "map (\<lambda>kd. (s_doctorId (snd kd), s_date (snd kd), s_time (snd kd), s_isBooked (snd kd)))
     (timeSlots exStore) = [(''D1'', ''2024-06-01'', ''09:00'', False)] \<and>
   \<not> isl (createTimeSlot exStore
            \<lparr>s_date = ''2024-06-01'', s_time = ''09:00'', s_doctorId = ''D1'', s_isBooked = False\<rparr> 5) \<and>
   fst (handleAddSlot exStore (''2024-06-01'', ''09:00'') (Some (DoctorUser exDoctor)) 5) =
     Some (''Available slot added successfully'', success) \<and>
   map (\<lambda>kd. (s_doctorId (snd kd), s_date (snd kd), s_time (snd kd), s_isBooked (snd kd)))
     (getDoctorTimeSlots
        (snd (handleAddSlot exStore (''2024-06-01'', ''09:00'') (Some (DoctorUser exDoctor)) 5)) ''D1'') =
     [(''D1'', ''2024-06-01'', ''09:00'', False), (''D1'', ''2024-06-01'', ''09:00'', False)]"
  by (simp add: handleAddSlot_def createTimeSlot_def addDoc_def autoId_def exStore_def exSlot_def
        exDoctor_def getDoctorTimeSlots_def getDocs_def slotOrder_def sort_key_def)

text \<open>
  C6 (amended): publishing checks neither duplicates nor the date. For every store and slot
  data, \<^verbatim>\<open>createTimeSlot\<close> succeeds and appends the slot under a fresh id, leaving the stored
  slots as they were, whatever tuple or date they or the new slot have. \<^verbatim>\<open>handleAddSlot\<close>
  returns without writing only when the date or the time is empty (or nobody is logged
  in); otherwise it adds an open slot of the logged-in user with the date and time given.
  In the fallback tier \<^verbatim>\<open>tempCreateTimeSlot\<close> likewise appends the slot it is given.
\<close>

theorem createTimeSlot_unchecked:
  "\<exists>k. createTimeSlot st timeSlotData now =
          Inr ((k, timeSlotData),
               st\<lparr>timeSlots := timeSlots st @
                 [(k, \<lparr>s_date = s_date timeSlotData, s_time = s_time timeSlotData,
                       s_doctorId = s_doctorId timeSlotData, s_isBooked = s_isBooked timeSlotData,
                       s_createdAt = now, s_updatedAt = None\<rparr>)]\<rparr>) \<and>
        getDoc (timeSlots st) k = None \<and>
        handleAddSlot st (date, time) (Some u) now' =
          (if date = [] \<or> time = [] then (None, st)
           else (Some (''Available slot added successfully'', success),
                 st\<lparr>timeSlots := timeSlots st @
                   [(k, \<lparr>s_date = date, s_time = time, s_doctorId = user_uid u, s_isBooked = False,
                         s_createdAt = now', s_updatedAt = None\<rparr>)]\<rparr>)) \<and>
        handleAddSlot st (date, time) None now' = (None, st) \<and>
        getFromStorage (ls_timeSlots (snd (tempCreateTimeSlot ls timeSlotData ts rnd))) =
          getFromStorage (ls_timeSlots ls) @ [(''slot_'' @ ts @ ''_'' @ rnd, timeSlotData)]"
  by (simp add: createTimeSlot_def addDoc_def handleAddSlot_def getDoc_def autoId_fresh
        tempCreateTimeSlot_def Let_def getFromStorage_def saveToStorage_def)

text \<open>
  C7, as stated, fails: in \<open>exBooked1\<close> slot \<open>s1\<close> is booked and P1's pending appointment
  refers to its date and time, while the doctor's page, not yet refreshed, displays the slot
  as open and so offers its remove button. Removing it does not fail with a slot-booked
  error: the handler reports success and the slot is gone, while the appointment stays.
\<close>

theorem booked_slot_deleted_counterexample:
  "map_option s_isBooked (getDoc (timeSlots exBooked1) ''s1'') = Some True \<and>
   removeButtonShown exSlot \<and>
   fst (handleRemoveSlot exBooked1 ''s1'') = (''Slot removed successfully'', success) \<and>
   timeSlots (snd (handleRemoveSlot exBooked1 ''s1'')) = [] \<and>
   appointments (snd (handleRemoveSlot exBooked1 ''s1'')) = [(''0'', exAppointment1)]"
  by (simp add: handleRemoveSlot_def deleteTimeSlot_def deleteDoc_def exBooked1_eq getDoc_def
        removeButtonShown_def exSlot_def)

text \<open>
  C7 (amended): withdrawing takes the slot id alone and checks neither owner nor flag. For
  every store and id, after \<^verbatim>\<open>deleteTimeSlot\<close> no slot document has that id, every other slot
  document and every appointment is as before, and \<^verbatim>\<open>handleRemoveSlot\<close> reports success.
  In the fallback tier \<^verbatim>\<open>tempDeleteTimeSlot\<close> likewise keeps exactly the slots with another id
  and returns whether a slot had that id.
\<close>

theorem deleteTimeSlot_unchecked:
  "getDoc (timeSlots (deleteTimeSlot st k)) k' =
     (if k' = k then None else getDoc (timeSlots st) k') \<and>
   appointments (deleteTimeSlot st k) = appointments st \<and>
   handleRemoveSlot st k = ((''Slot removed successfully'', success), deleteTimeSlot st k) \<and>
   getFromStorage (ls_timeSlots (snd (tempDeleteTimeSlot ls k))) =
     filter (\<lambda>slot. fst slot \<noteq> k) (getFromStorage (ls_timeSlots ls)) \<and>
   fst (tempDeleteTimeSlot ls k) = (k \<in> fst ` set (getFromStorage (ls_timeSlots ls)))"
proof -
  have "(length (filter (\<lambda>slot. fst slot \<noteq> k) xs) < length xs) = (k \<in> fst ` set xs)"
    for xs :: "(docId \<times> TimeSlotData) list"
    by (induction xs) (auto simp: less_Suc_eq_le)
  then show ?thesis
    by (simp add: deleteTimeSlot_def deleteDoc_def getDoc_def map_of_remove handleRemoveSlot_def
        tempDeleteTimeSlot_def Let_def getFromStorage_def saveToStorage_def filter_keeps_all)
qed

section \<open>Listing open slots\<close>

text \<open>
  The Firestore listings: exactly the open slots (of the doctor asked for), ascending by
  date, then time.
\<close>

lemma slotOrder_mono:
  "slotOrder x \<le> slotOrder y \<Longrightarrow>
   (s_date (snd x), s_time (snd x)) \<le> (s_date (snd y), s_time (snd y))"
  by (auto simp: slotOrder_def)

lemma sorted_by_slotOrder:
  assumes "sorted (map slotOrder xs)"
  shows "sorted (map (\<lambda>s. (s_date (snd s), s_time (snd s))) xs)"
proof -
  from assms have "sorted_wrt (\<lambda>x y. slotOrder x \<le> slotOrder y) xs"
    by (simp only: sorted_map)
  then have "sorted_wrt (\<lambda>x y. (s_date (snd x), s_time (snd x)) \<le> (s_date (snd y), s_time (snd y))) xs"
    by (rule sorted_wrt_mono_rel [rotated]) (rule slotOrder_mono)
  then show ?thesis
    by (simp only: sorted_map)
qed

lemma getDocs_sorted:
  "sorted (map (\<lambda>s. (s_date (snd s), s_time (snd s))) (getDocs wh slotOrder c))"
  by (rule sorted_by_slotOrder) (simp add: getDocs_def)

lemma getDocs_set: "set (getDocs wh ordr c) = {kd \<in> set c. wh (snd kd)}"
  by (auto simp: getDocs_def)

lemma getDoctorTimeSlots_open_sorted:
  "set (getDoctorTimeSlots st dr) =
     {kd \<in> set (timeSlots st). s_doctorId (snd kd) = dr \<and> \<not> s_isBooked (snd kd)} \<and>
   sorted (map (\<lambda>s. (s_date (snd s), s_time (snd s))) (getDoctorTimeSlots st dr))"
  by (simp add: getDoctorTimeSlots_def getDocs_sorted getDocs_set)

lemma getAvailableTimeSlots_open_sorted:
  "set (map fst (getAvailableTimeSlots st)) = {kd \<in> set (timeSlots st). \<not> s_isBooked (snd kd)} \<and>
   sorted (map (\<lambda>s. (s_date (snd s), s_time (snd s))) (map fst (getAvailableTimeSlots st)))"
  by (simp add: getAvailableTimeSlots_def getDocs_sorted getDocs_set o_def Let_def)

text \<open>A slot added through the page is listed; a slot booked with success is not.\<close>

lemma added_slot_is_listed:
  assumes "date \<noteq> []" and "time \<noteq> []"
  shows "\<exists>kd \<in> set (getDoctorTimeSlots (snd (handleAddSlot st (date, time) (Some u) now)) (user_uid u)).
           s_date (snd kd) = date \<and> s_time (snd kd) = time \<and>
           getDoc (timeSlots st) (fst kd) = None"
proof -
  let ?kd = "(autoId (timeSlots st),
              \<lparr>s_date = date, s_time = time, s_doctorId = user_uid u, s_isBooked = False,
               s_createdAt = now, s_updatedAt = None\<rparr>)"
  from assms
  have "?kd \<in> set (getDoctorTimeSlots (snd (handleAddSlot st (date, time) (Some u) now)) (user_uid u))"
    by (simp add: handleAddSlot_def createTimeSlot_def addDoc_def getDoctorTimeSlots_def getDocs_set)
  moreover have "getDoc (timeSlots st) (fst ?kd) = None"
    by (simp add: getDoc_def autoId_fresh)
  ultimately show ?thesis
    by (intro bexI [of _ ?kd]) simp_all
qed

lemma booked_slot_is_not_listed:
  assumes "bookAppointment st (Some dr) (Some slot) (Some (PatientUser p)) t1 t2 c =
             (Some (''Appointment booked successfully!'', success), st')"
  shows "fst slot \<notin> fst ` fst ` set (getAvailableTimeSlots st') \<and>
         fst slot \<notin> fst ` set (getDoctorTimeSlots st' x)"
proof -
  from assms have "timeSlots st' =
      map (\<lambda>(k', d'). if k' = fst slot
             then (k', d'\<lparr>s_isBooked := True, s_updatedAt := Some t2\<rparr>) else (k', d'))
        (timeSlots st)"
    by (auto simp: bookAppointment_patient Let_def split: if_splits)
  then have "\<forall>kd \<in> set (timeSlots st'). fst kd = fst slot \<longrightarrow> s_isBooked (snd kd)"
    by auto
  then show ?thesis
    by (auto simp: getAvailableTimeSlots_def getDoctorTimeSlots_def getDocs_set Let_def)
qed

text \<open>The fallback listing returns exactly the open slots (of the doctor asked for).\<close>

lemma tempGetAvailableSlots_open:
  "tempGetAvailableSlots ls None =
     filter (\<lambda>slot. \<not> s_isBooked (snd slot)) (getFromStorage (ls_timeSlots ls)) \<and>
   (dr \<noteq> [] \<longrightarrow> tempGetAvailableSlots ls (Some dr) =
     filter (\<lambda>slot. s_doctorId (snd slot) = dr \<and> \<not> s_isBooked (snd slot))
       (getFromStorage (ls_timeSlots ls)))"
  by (auto simp: tempGetAvailableSlots_def tempGetTimeSlots_def Let_def intro: filter_cong)

text \<open>
  C8: the listing of open slots is ascending by (date, time). The Firestore listings are
  (\<open>getDoctorTimeSlots_open_sorted\<close>, \<open>getAvailableTimeSlots_open_sorted\<close>); the fallback
  listing \<^verbatim>\<open>tempGetAvailableSlots\<close> is not. A doctor publishes the slot of 2024-06-02 and then
  the slot of 2024-06-01: the fallback listing, with or without the doctor filter, returns
  them in that order of storage, which is not ascending.
\<close>

theorem tempGetAvailableSlots_unordered:
  "tempGetAvailableSlots exUnordered None =
     [(''slot_1_a'', \<lparr>s_date = ''2024-06-02'', s_time = ''09:00'', s_doctorId = ''doctor_1'',
                     s_isBooked = False\<rparr>),
      (''slot_2_b'', \<lparr>s_date = ''2024-06-01'', s_time = ''09:00'', s_doctorId = ''doctor_1'',
                     s_isBooked = False\<rparr>)] \<and>
   tempGetAvailableSlots exUnordered (Some ''doctor_1'') = tempGetAvailableSlots exUnordered None \<and>
   \<not> sorted (map (\<lambda>slot. (s_date (snd slot), s_time (snd slot)))
               (tempGetAvailableSlots exUnordered None))"
  by (simp add: tempGetAvailableSlots_def tempGetTimeSlots_def tempCreateTimeSlot_def exUnordered_def
        getFromStorage_def saveToStorage_def Let_def)

section \<open>Appointments keep their snapshot\<close>

lemma perform_keeps_snapshot:
  assumes "getDoc (appointments st) k = Some a"
  shows "\<exists>a'. getDoc (appointments (perform st op)) k = Some a' \<and> snapshot a' = snapshot a"
proof (cases op)
  case (CreateUserDocument u now)
  with assms show ?thesis by (simp add: createUserDocument_def)
next
  case (CreateTimeSlot d now)
  with assms show ?thesis by (simp add: createTimeSlot_def addDoc_def)
next
  case (DeleteTimeSlot x)
  with assms show ?thesis by (simp add: deleteTimeSlot_def)
next
  case (UpdateTimeSlotBookingStatus x b now)
  with assms show ?thesis
    by (simp add: updateTimeSlotBookingStatus_def updateDoc_def)
next
  case (CreateAppointment d now clientNow)
  with assms show ?thesis
    by (simp add: createAppointment_def addDoc_def getDoc_def map_of_snoc)
next
  case (UpdateAppointmentStatus x s now)
  with assms show ?thesis
    by (auto simp: updateAppointmentStatus_def updateDoc_def getDoc_def map_of_modify snapshot_def)
qed

lemma calls_keep_snapshot:
  "getDoc (appointments st) k = Some a \<Longrightarrow>
   \<exists>a'. getDoc (appointments (foldl perform st ops)) k = Some a' \<and> snapshot a' = snapshot a"
proof (induction ops arbitrary: st a)
  case Nil
  then show ?case by simp
next
  case (Cons op ops)
  from perform_keeps_snapshot [OF Cons.prems, of op]
  obtain b where b: "getDoc (appointments (perform st op)) k = Some b" "snapshot b = snapshot a"
    by blast
  from Cons.IH [OF b(1)] b(2) show ?case by simp
qed

lemma createAppointment_stored:
  assumes "createAppointment st appointmentData now clientNow = Inr ((k, ret), st1)"
  shows "getDoc (appointments st1) k =
           Some (AppointmentData.extend appointmentData (AppointmentDoc.fields now now))"
  using assms
  by (auto simp: createAppointment_def addDoc_def getDoc_def map_add_def autoId_fresh
        split: if_splits)

text \<open>
  C9: the fields of an appointment other than \<^verbatim>\<open>status\<close> and \<^verbatim>\<open>updatedAt\<close> are fixed when
  \<^verbatim>\<open>createAppointment\<close> stores it. After any sequence of later calls of the mutating functions
  of lib/firestore.ts (rewriting user profiles, creating, deleting and marking slots,
  creating other appointments, updating any appointment's status), the appointment still
  exists under its id and its doctor and patient ids and names, patient age and gender,
  specialty, date, time and creation time are those given at creation.
\<close>

theorem appointment_snapshot_is_frozen:
  assumes "createAppointment st appointmentData now clientNow = Inr ((k, ret), st1)"
  shows "\<exists>a. getDoc (appointments (foldl perform st1 ops)) k = Some a \<and>
           a_doctorId a = a_doctorId appointmentData \<and>
           a_patientId a = a_patientId appointmentData \<and>
           a_doctorName a = a_doctorName appointmentData \<and>
           a_patientName a = a_patientName appointmentData \<and>
           a_patientAge a = a_patientAge appointmentData \<and>
           a_patientGender a = a_patientGender appointmentData \<and>
           a_specialty a = a_specialty appointmentData \<and>
           a_date a = a_date appointmentData \<and>
           a_time a = a_time appointmentData \<and>
           a_createdAt a = now"
proof -
  let ?d = "AppointmentData.extend appointmentData (AppointmentDoc.fields now now)"
  from createAppointment_stored [OF assms]
  have "getDoc (appointments st1) k = Some ?d" .
  from calls_keep_snapshot [OF this, of ops]
  obtain a where a: "getDoc (appointments (foldl perform st1 ops)) k = Some a"
    and s: "snapshot a = snapshot ?d"
    by blast
  from s have "a_doctorId (snapshot a) = a_doctorId (snapshot ?d)"
    "a_patientId (snapshot a) = a_patientId (snapshot ?d)"
    "a_doctorName (snapshot a) = a_doctorName (snapshot ?d)"
    "a_patientName (snapshot a) = a_patientName (snapshot ?d)"
    "a_patientAge (snapshot a) = a_patientAge (snapshot ?d)"
    "a_patientGender (snapshot a) = a_patientGender (snapshot ?d)"
    "a_specialty (snapshot a) = a_specialty (snapshot ?d)"
    "a_date (snapshot a) = a_date (snapshot ?d)"
    "a_time (snapshot a) = a_time (snapshot ?d)"
    "a_createdAt (snapshot a) = a_createdAt (snapshot ?d)"
    by simp_all
  then have "a_doctorId a = a_doctorId appointmentData \<and>
           a_patientId a = a_patientId appointmentData \<and>
           a_doctorName a = a_doctorName appointmentData \<and>
           a_patientName a = a_patientName appointmentData \<and>
           a_patientAge a = a_patientAge appointmentData \<and>
           a_patientGender a = a_patientGender appointmentData \<and>
           a_specialty a = a_specialty appointmentData \<and>
           a_date a = a_date appointmentData \<and>
           a_time a = a_time appointmentData \<and>
           a_createdAt a = now"
    by (simp add: snapshot_def AppointmentData.defs AppointmentDoc.defs)
  with a show ?thesis by blast
qed

text \<open>
  Witness for C9: P1's appointment is created in \<open>exStore\<close>; afterwards the doctor's profile
  is rewritten with the specialty dermatology, the slot is marked and the appointment is
  confirmed. The profile then says dermatology, the appointment still cardiology.
\<close>

theorem appointment_snapshot_is_frozen_witness:
  "createAppointment exStore exAppointmentData 2 2 =
     Inr ((''0'', exAppointment1), exStore\<lparr>appointments := [(''0'', exAppointment1)]\<rparr>) \<and>
   (\<exists>a. getDoc (appointments
             (foldl perform (exStore\<lparr>appointments := [(''0'', exAppointment1)]\<rparr>) exLaterCalls)) ''0'' =
          Some a \<and>
        a_doctorId a = a_doctorId exAppointmentData \<and>
        a_patientId a = a_patientId exAppointmentData \<and>
        a_doctorName a = a_doctorName exAppointmentData \<and>
        a_patientName a = a_patientName exAppointmentData \<and>
        a_patientAge a = a_patientAge exAppointmentData \<and>
        a_patientGender a = a_patientGender exAppointmentData \<and>
        a_specialty a = a_specialty exAppointmentData \<and>
        a_date a = a_date exAppointmentData \<and>
        a_time a = a_time exAppointmentData \<and>
        a_createdAt a = 2) \<and>
   a_specialty exAppointmentData = ''cardiology'' \<and>
   Option.bind
     (getUserDocument
        (foldl perform (exStore\<lparr>appointments := [(''0'', exAppointment1)]\<rparr>) exLaterCalls) ''D1'')
     user_specialty = Some ''dermatology''"
proof -
  have h: "createAppointment exStore exAppointmentData 2 2 =
      Inr ((''0'', exAppointment1), exStore\<lparr>appointments := [(''0'', exAppointment1)]\<rparr>)"
    by (simp add: createAppointment_def addDoc_def appointmentDefined_def autoId_def exStore_def
          exAppointmentData_def exAppointment1_def AppointmentData.defs AppointmentDoc.defs)
  have p: "Option.bind
     (getUserDocument
        (foldl perform (exStore\<lparr>appointments := [(''0'', exAppointment1)]\<rparr>) exLaterCalls) ''D1'')
     user_specialty = Some ''dermatology''"
    by (simp add: exLaterCalls_def createUserDocument_def setDoc_def exStore_def exDoctor_def
          updateTimeSlotBookingStatus_def updateAppointmentStatus_def updateDoc_def
          getUserDocument_def getDoc_def)
  have c: "a_specialty exAppointmentData = ''cardiology''"
    by (simp add: exAppointmentData_def)
  from h p c appointment_snapshot_is_frozen [OF h, of exLaterCalls]
  show ?thesis by blast
qed

section \<open>Booking in the fallback tier\<close>

text \<open>
  C10: \<^verbatim>\<open>tempCreateAppointment\<close> marks slots by their fields, not by an id. It returns the
  appointment under the generated id and appends it to the stored appointments whether or
  not a slot matches; the stored slots keep their number and order; every slot whose
  doctor, date and time equal the appointment's becomes the same slot with \<^verbatim>\<open>isBooked\<close> true
  (each of them, when several share the tuple), and every other slot stays as it was.
\<close>

theorem tempCreateAppointment_marks_by_tuple:
  "fst (tempCreateAppointment ls appointment ts rnd) = (''appt_'' @ ts @ ''_'' @ rnd, appointment) \<and>
   getFromStorage (ls_appointments (snd (tempCreateAppointment ls appointment ts rnd))) =
     getFromStorage (ls_appointments ls) @ [(''appt_'' @ ts @ ''_'' @ rnd, appointment)] \<and>
   length (getFromStorage (ls_timeSlots (snd (tempCreateAppointment ls appointment ts rnd)))) =
     length (getFromStorage (ls_timeSlots ls)) \<and>
   (\<forall>i < length (getFromStorage (ls_timeSlots ls)).
      s_doctorId (snd (getFromStorage (ls_timeSlots ls) ! i)) = a_doctorId appointment \<and>
      s_date (snd (getFromStorage (ls_timeSlots ls) ! i)) = a_date appointment \<and>
      s_time (snd (getFromStorage (ls_timeSlots ls) ! i)) = a_time appointment \<longrightarrow>
      getFromStorage (ls_timeSlots (snd (tempCreateAppointment ls appointment ts rnd))) ! i =
        (fst (getFromStorage (ls_timeSlots ls) ! i),
         (snd (getFromStorage (ls_timeSlots ls) ! i))\<lparr>s_isBooked := True\<rparr>)) \<and>
   (\<forall>i < length (getFromStorage (ls_timeSlots ls)).
      \<not> (s_doctorId (snd (getFromStorage (ls_timeSlots ls) ! i)) = a_doctorId appointment \<and>
         s_date (snd (getFromStorage (ls_timeSlots ls) ! i)) = a_date appointment \<and>
         s_time (snd (getFromStorage (ls_timeSlots ls) ! i)) = a_time appointment) \<longrightarrow>
      getFromStorage (ls_timeSlots (snd (tempCreateAppointment ls appointment ts rnd))) ! i =
        getFromStorage (ls_timeSlots ls) ! i)"
  by (simp add: tempCreateAppointment_def Let_def getFromStorage_def saveToStorage_def)

text \<open>
  Witness for C10: in \<open>exLocal\<close> the first and the third slot have the appointment's doctor,
  date and time and both become booked; the second, half an hour later, stays open; the
  appointment is the only one stored.
\<close>

theorem tempCreateAppointment_marks_by_tuple_witness:
  "length (getFromStorage (ls_timeSlots exLocal)) = 3 \<and>
   getFromStorage (ls_timeSlots (snd (tempCreateAppointment exLocal exLocalAppointment ''5'' ''x''))) ! 0 =
     (''slot_1_a'', \<lparr>s_date = ''2024-06-01'', s_time = ''09:00'', s_doctorId = ''doctor_1'',
                    s_isBooked = True\<rparr>) \<and>
   getFromStorage (ls_timeSlots (snd (tempCreateAppointment exLocal exLocalAppointment ''5'' ''x''))) ! 1 =
     (''slot_2_b'', \<lparr>s_date = ''2024-06-01'', s_time = ''09:30'', s_doctorId = ''doctor_1'',
                    s_isBooked = False\<rparr>) \<and>
   getFromStorage (ls_timeSlots (snd (tempCreateAppointment exLocal exLocalAppointment ''5'' ''x''))) ! 2 =
     (''slot_3_c'', \<lparr>s_date = ''2024-06-01'', s_time = ''09:00'', s_doctorId = ''doctor_1'',
                    s_isBooked = True\<rparr>) \<and>
   getFromStorage (ls_appointments (snd (tempCreateAppointment exLocal exLocalAppointment ''5'' ''x''))) =
     [(''appt_5_x'', exLocalAppointment)]"
proof -
  let ?old = "getFromStorage (ls_timeSlots exLocal)"
  let ?new = "getFromStorage (ls_timeSlots (snd (tempCreateAppointment exLocal exLocalAppointment ''5'' ''x'')))"
  note T = tempCreateAppointment_marks_by_tuple [of exLocal exLocalAppointment "''5''" "''x''"]
  have old: "?old =
     [(''slot_1_a'', \<lparr>s_date = ''2024-06-01'', s_time = ''09:00'', s_doctorId = ''doctor_1'',
                     s_isBooked = False\<rparr>),
      (''slot_2_b'', \<lparr>s_date = ''2024-06-01'', s_time = ''09:30'', s_doctorId = ''doctor_1'',
                     s_isBooked = False\<rparr>),
      (''slot_3_c'', \<lparr>s_date = ''2024-06-01'', s_time = ''09:00'', s_doctorId = ''doctor_1'',
                     s_isBooked = False\<rparr>)]"
    by (simp add: exLocal_def getFromStorage_def)
  from T have marked: "i < length ?old \<Longrightarrow>
      s_doctorId (snd (?old ! i)) = a_doctorId exLocalAppointment \<and>
      s_date (snd (?old ! i)) = a_date exLocalAppointment \<and>
      s_time (snd (?old ! i)) = a_time exLocalAppointment \<Longrightarrow>
      ?new ! i = (fst (?old ! i), (snd (?old ! i))\<lparr>s_isBooked := True\<rparr>)" for i
    by blast
  from T have kept: "i < length ?old \<Longrightarrow>
      \<not> (s_doctorId (snd (?old ! i)) = a_doctorId exLocalAppointment \<and>
         s_date (snd (?old ! i)) = a_date exLocalAppointment \<and>
         s_time (snd (?old ! i)) = a_time exLocalAppointment) \<Longrightarrow>
      ?new ! i = ?old ! i" for i
    by blast
  from T have appended: "getFromStorage (ls_appointments (snd (tempCreateAppointment exLocal exLocalAppointment ''5'' ''x''))) =
      getFromStorage (ls_appointments exLocal) @ [(''appt_'' @ ''5'' @ ''_'' @ ''x'', exLocalAppointment)]"
    by blast
  have "length ?old = 3"
    by (simp add: old)
  moreover have "?new ! 0 = (''slot_1_a'', \<lparr>s_date = ''2024-06-01'', s_time = ''09:00'',
      s_doctorId = ''doctor_1'', s_isBooked = True\<rparr>)"
    using marked [of 0] by (simp add: old exLocalAppointment_def)
  moreover have "?new ! 1 = (''slot_2_b'', \<lparr>s_date = ''2024-06-01'', s_time = ''09:30'',
      s_doctorId = ''doctor_1'', s_isBooked = False\<rparr>)"
    using kept [of 1] by (simp add: old exLocalAppointment_def)
  moreover have "?new ! 2 = (''slot_3_c'', \<lparr>s_date = ''2024-06-01'', s_time = ''09:00'',
      s_doctorId = ''doctor_1'', s_isBooked = True\<rparr>)"
    using marked [of 2] by (simp add: old exLocalAppointment_def)
  moreover have "getFromStorage (ls_appointments (snd (tempCreateAppointment exLocal exLocalAppointment ''5'' ''x''))) =
      [(''appt_5_x'', exLocalAppointment)]"
    using appended by (simp add: exLocal_def getFromStorage_def)
  ultimately show ?thesis
    by blast
qed

end
